theory Spec2Isabelle
  imports Main "HOL-Library.Sublist"
begin

section \<open>Python string operations used by the converter\<close>

text \<open>
  Python strings are modelled as \<open>string\<close> (character lists). Only the operations that
  \<^verbatim>\<open>bazel_to_cmake.py\<close> applies to strings are modelled: \<^verbatim>\<open>s.startswith(p)\<close>,
  \<^verbatim>\<open>sub in s\<close>, \<^verbatim>\<open>s.split(c)\<close> for a one-character separator, \<^verbatim>\<open>s[1:]\<close> (which is
  \<open>drop 1 s\<close>), and \<^verbatim>\<open>sep.join(xs)\<close>.
\<close>

definition startswith :: "string \<Rightarrow> string \<Rightarrow> bool" where
  "startswith s p = (take (length p) s = p)"

text \<open>\<open>py_in sub s\<close> is Python's \<^verbatim>\<open>sub in s\<close>: \<open>sub\<close> occurs in \<open>s\<close> as a contiguous run.\<close>

fun py_in :: "string \<Rightarrow> string \<Rightarrow> bool" where
  "py_in sub [] = (sub = [])"
| "py_in sub (c # cs) = (startswith (c # cs) sub \<or> py_in sub cs)"

text \<open>
  \<open>py_split c s\<close> is \<^verbatim>\<open>s.split(c)\<close> for a single character \<open>c\<close>: the pieces between the
  occurrences of \<open>c\<close>, empty pieces included; the result is never the empty list. The last
  equation's \<open>[]\<close> case is unreachable and only makes the definition total.
\<close>

fun py_split :: "char \<Rightarrow> string \<Rightarrow> string list" where
  "py_split c [] = [[]]"
| "py_split c (x # xs) =
     (if x = c then [] # py_split c xs
      else (case py_split c xs of
              w # ws \<Rightarrow> (x # w) # ws
            | [] \<Rightarrow> [[x]]))"


section \<open>The data model: \<^verbatim>\<open>BazelTarget\<close>\<close>

text \<open>
  \<^verbatim>\<open>class BazelTarget\<close>. The attribute lists are \<^verbatim>\<open>list[str]\<close>. The type of \<open>name\<close> is a
  parameter: the generator formats it into f-strings as a \<^verbatim>\<open>str\<close> (the annotation of
  \<^verbatim>\<open>__init__\<close>), while the parser stores whatever value the descriptor passes as
  \<^verbatim>\<open>name\<close>, unchecked.
\<close>

record 'n BazelTarget =
  rule_type :: string
  name :: 'n
  hdrs :: "string list"
  srcs :: "string list"
  deps :: "string list"
  visibility :: "string list"
  data :: "string list"

definition BazelTarget_init :: "string \<Rightarrow> 'n \<Rightarrow> 'n BazelTarget" where
  "BazelTarget_init rt n =
     \<lparr>rule_type = rt, name = n, hdrs = [], srcs = [], deps = [], visibility = [], data = []\<rparr>"

definition add_attribute :: "'n BazelTarget \<Rightarrow> string \<Rightarrow> string list \<Rightarrow> 'n BazelTarget" where
  "add_attribute self attr_name values =
     (if attr_name = ''hdrs'' then self\<lparr>hdrs := hdrs self @ values\<rparr>
      else if attr_name = ''srcs'' then self\<lparr>srcs := srcs self @ values\<rparr>
      else if attr_name = ''deps'' then self\<lparr>deps := deps self @ values\<rparr>
      else if attr_name = ''visibility'' then self\<lparr>visibility := visibility self @ values\<rparr>
      else if attr_name = ''data'' then self\<lparr>data := data self @ values\<rparr>
      else self)"

section \<open>The generator: \<^verbatim>\<open>CMakeGenerator\<close>\<close>

record CMakeGenerator =
  project_name :: string
  cmake_minimum_version :: string
  cpp_standard :: string

definition CMakeGenerator_init :: "string \<Rightarrow> CMakeGenerator" where
  "CMakeGenerator_init pn =
     \<lparr>project_name = pn, cmake_minimum_version = ''3.20'', cpp_standard = ''20''\<rparr>"

definition generate_header :: "CMakeGenerator \<Rightarrow> string list" where
  "generate_header self =
     [''cmake_minimum_required(VERSION '' @ cmake_minimum_version self @ '')'',
      ''project('' @ project_name self @ '' LANGUAGES CXX)'',
      '''',
      ''set(CMAKE_CXX_STANDARD '' @ cpp_standard self @ '')'',
      ''set(CMAKE_CXX_STANDARD_REQUIRED ON)'',
      ''set(CMAKE_CXX_EXTENSIONS OFF)'',
      '''',
      ''# Enable testing'',
      ''include(CTest)'',
      ''enable_testing()'']"

text \<open>
  \<^verbatim>\<open>_find_external_deps\<close>: the two nested \<^verbatim>\<open>for\<close> loops as two folds over the set
  \<^verbatim>\<open>external_deps\<close>.
\<close>

definition find_external_deps_step :: "string set \<Rightarrow> string \<Rightarrow> string set" where
  "find_external_deps_step external_deps dep =
     (if startswith dep ''@'' then
        (if py_in ''googletest'' dep \<or> py_in ''gtest'' dep
         then insert ''GTest'' external_deps else external_deps)
      else external_deps)"

definition find_external_deps :: "string BazelTarget list \<Rightarrow> string set" where
  "find_external_deps targets =
     foldl (\<lambda>external_deps target. foldl find_external_deps_step external_deps (deps target))
       {} targets"

definition generate_find_package_section :: "string set \<Rightarrow> string list" where
  "generate_find_package_section external_deps =
     (let lines = [''# External dependencies''] in
      if ''GTest'' \<in> external_deps then
        lines @
        [''include(FetchContent)'',
         '''',
         ''# Fetch GoogleTest'',
         ''FetchContent_Declare('',
         ''    googletest'',
         ''    GIT_REPOSITORY https://github.com/google/googletest.git'',
         ''    GIT_TAG        v1.14.0'',
         '')'',
         ''FetchContent_MakeAvailable(googletest)'']
      else lines)"

text \<open>
  \<^verbatim>\<open>_convert_deps_to_cmake\<close>: \<open>convert_dep\<close> is the body of the loop, giving what one
  \<^verbatim>\<open>dep\<close> appends to \<^verbatim>\<open>cmake_deps\<close> (one identifier or nothing). \<^verbatim>\<open>split(...)[-1]\<close> is
  \<open>last\<close> of a list that \<open>py_split\<close> never leaves empty.
\<close>

definition convert_dep :: "string \<Rightarrow> string list" where
  "convert_dep dep =
     (if startswith dep '':'' then [drop 1 dep]
      else if startswith dep ''//'' then
        [if py_in '':'' dep then last (py_split (CHR '':'') dep)
         else last (py_split (CHR ''/'') dep)]
      else if py_in ''@com_google_googletest//:gtest_main'' dep then [''GTest::gtest_main'']
      else if py_in ''@com_google_googletest//:gtest'' dep then [''GTest::gtest'']
      else if startswith dep ''@'' then
        (if py_in ''googletest'' dep \<or> py_in ''gtest'' dep then
           (if py_in ''main'' dep then [''GTest::gtest_main''] else [''GTest::gtest''])
         else [])
      else [])"

definition convert_deps_to_cmake :: "string list \<Rightarrow> string list" where
  "convert_deps_to_cmake bazel_deps =
     foldl (\<lambda>cmake_deps dep. cmake_deps @ convert_dep dep) [] bazel_deps"

definition generate_library_target :: "string BazelTarget \<Rightarrow> string list" where
  "generate_library_target target =
     (let lines = [''# Library: '' @ name target];
          is_header_only = (srcs target = [] \<and> hdrs target \<noteq> []);
          lines =
            (if is_header_only then
               lines @ [''add_library('' @ name target @ '' INTERFACE)''] @
               (if hdrs target \<noteq> [] then
                  [''target_sources('' @ name target @ '' INTERFACE''] @
                  map (\<lambda>hdr. ''    ${CMAKE_CURRENT_SOURCE_DIR}/'' @ hdr) (hdrs target) @
                  ['')'']
                else []) @
               [''target_include_directories('' @ name target @ '' INTERFACE'',
                ''    $<BUILD_INTERFACE:${CMAKE_CURRENT_SOURCE_DIR}>'',
                ''    $<INSTALL_INTERFACE:include>'',
                '')'']
             else
               (let sources = srcs target @ hdrs target in
                lines @ [''add_library('' @ name target] @
                map (\<lambda>src. ''    '' @ src) sources @
                ['')''] @
                [''target_include_directories('' @ name target @ '' PUBLIC'',
                 ''    $<BUILD_INTERFACE:${CMAKE_CURRENT_SOURCE_DIR}>'',
                 ''    $<INSTALL_INTERFACE:include>'',
                 '')'']))
      in
      if deps target \<noteq> [] then
        (let cmake_deps = convert_deps_to_cmake (deps target) in
         if cmake_deps \<noteq> [] then
           (let scope = (if is_header_only then ''INTERFACE'' else ''PUBLIC'') in
            lines @ [''target_link_libraries('' @ name target @ '' '' @ scope] @
            map (\<lambda>dep. ''    '' @ dep) cmake_deps @
            ['')''])
         else lines)
      else lines)"

definition generate_test_target :: "string BazelTarget \<Rightarrow> string list" where
  "generate_test_target target =
     (let lines = [''# Test: '' @ name target];
          lines = lines @ [''add_executable('' @ name target] @
                  map (\<lambda>src. ''    '' @ src) (srcs target) @
                  ['')''];
          cmake_deps = convert_deps_to_cmake (deps target);
          lines =
            (if cmake_deps \<noteq> [] then
               lines @ [''target_link_libraries('' @ name target] @
               map (\<lambda>dep. ''    '' @ dep) cmake_deps @
               ['')'']
             else lines)
      in lines @ [''add_test(NAME '' @ name target @ '' COMMAND '' @ name target @ '')''])"

definition generate_binary_target :: "string BazelTarget \<Rightarrow> string list" where
  "generate_binary_target target =
     (let lines = [''# Binary: '' @ name target];
          lines = lines @ [''add_executable('' @ name target] @
                  map (\<lambda>src. ''    '' @ src) (srcs target) @
                  ['')''];
          cmake_deps = convert_deps_to_cmake (deps target)
      in
      if cmake_deps \<noteq> [] then
        lines @ [''target_link_libraries('' @ name target] @
        map (\<lambda>dep. ''    '' @ dep) cmake_deps @
        ['')'']
      else lines)"

definition generate_target :: "string BazelTarget \<Rightarrow> string list" where
  "generate_target target =
     (let lines = [''# '' @ rule_type target @ '': '' @ name target] in
      if rule_type target = ''cc_library'' then generate_library_target target
      else if rule_type target = ''cc_test'' then generate_test_target target
      else if rule_type target = ''cc_binary'' then generate_binary_target target
      else lines)"

text \<open>
  \<^verbatim>\<open>_generate_install_rules\<close>: \<open>install_files_step\<close> is the body of the loop over
  \<^verbatim>\<open>library_targets\<close>.
\<close>

definition install_files_step :: "string list \<Rightarrow> string BazelTarget \<Rightarrow> string list" where
  "install_files_step lines target =
     (if hdrs target \<noteq> [] then
        lines @ [''install(FILES''] @
        map (\<lambda>hdr. ''    '' @ hdr) (hdrs target) @
        [''    DESTINATION include)'']
      else lines)"

definition generate_install_rules :: "string BazelTarget list \<Rightarrow> string list" where
  "generate_install_rules library_targets =
     (let lines = [''# Install rules''];
          lines = foldl install_files_step lines library_targets;
          target_names = map name library_targets
      in
      if target_names \<noteq> [] then
        lines @ [''install(TARGETS''] @
        map (\<lambda>n. ''    '' @ n) target_names @
        [''    EXPORT ${PROJECT_NAME}Targets'',
         ''    LIBRARY DESTINATION lib'',
         ''    ARCHIVE DESTINATION lib'',
         ''    RUNTIME DESTINATION bin'',
         ''    INCLUDES DESTINATION include)'']
      else lines)"

text \<open>
  \<^verbatim>\<open>generate_cmake\<close>. \<open>cmake_lines\<close> is the list \<^verbatim>\<open>lines\<close> as it stands when the output
  file is opened; \<open>library_targets_of\<close> is the comprehension that selects the
  \<^verbatim>\<open>cc_library\<close> targets.
\<close>

definition library_targets_of :: "string BazelTarget list \<Rightarrow> string BazelTarget list" where
  "library_targets_of targets = filter (\<lambda>t. rule_type t = ''cc_library'') targets"

definition cmake_lines :: "CMakeGenerator \<Rightarrow> string BazelTarget list \<Rightarrow> string list" where
  "cmake_lines self targets =
     (let lines = generate_header self @ [''''];
          external_deps = find_external_deps targets;
          lines =
            (if external_deps \<noteq> {} then
               lines @ generate_find_package_section external_deps @ ['''']
             else lines);
          lines = foldl (\<lambda>lines target. lines @ generate_target target @ ['''']) lines targets;
          library_targets = library_targets_of targets
      in
      if library_targets \<noteq> [] then lines @ generate_install_rules library_targets
      else lines)"

text \<open>
  The file system the generator writes to: the text of each file, and which paths can be
  opened for writing. \<^verbatim>\<open>open(output_path, 'w')\<close> raises \<^verbatim>\<open>OSError\<close> on a path that cannot
  be opened; otherwise the file holds exactly the text written. \<^verbatim>\<open>generate_cmake\<close>
  returns nothing: its result is the file system afterwards.
\<close>

datatype py_error = OSError | SyntaxError | NameError string | TypeError string




section \<open>The parser: \<^verbatim>\<open>BazelParser\<close>\<close>

text \<open>
  \<^verbatim>\<open>parse_file\<close> hands the text of the descriptor to Python's \<^verbatim>\<open>exec\<close>, with four names
  bound. The model covers the descriptor language of BUILD files: a flat sequence of call
  statements \<^verbatim>\<open>f(arg, ..., key = value, ...)\<close> whose argument values are string literals
  or lists of string literals. A text is represented by what Python's compiler makes of
  it: \<open>Unparseable\<close> when compiling it raises \<^verbatim>\<open>SyntaxError\<close> (which happens before any
  statement runs), and otherwise the sequence of its statements. The callees of the
  fragment are Bazel rule and macro names: \<^verbatim>\<open>exec\<close> also makes the names of Python's own
  \<^verbatim>\<open>builtins\<close> module callable, and calls of those (\<^verbatim>\<open>print\<close>, \<^verbatim>\<open>len\<close>, ...) are outside
  the model, which looks a callee up in \<^verbatim>\<open>exec_globals\<close> only.
\<close>

datatype pyval = Str string | StrList "string list"

datatype stmt =
  Call (callee: string) (call_args: "pyval list") (call_kwargs: "(string \<times> pyval) list")

datatype py_source = Unparseable | Module "stmt list"

record BazelParser =
  targets :: "pyval BazelTarget list"

definition BazelParser_init :: BazelParser where
  "BazelParser_init = \<lparr>targets = []\<rparr>"

text \<open>
  \<^verbatim>\<open>_populate_target\<close>. \<^verbatim>\<open>kwargs\<close> is the dictionary of the call's keyword arguments, an
  association list read with \<open>map_of\<close> (Python's compiler rejects a repeated keyword, so
  the keys of a compiled call are distinct).
\<close>

definition populate_step ::
  "(string \<times> pyval) list \<Rightarrow> pyval BazelTarget \<Rightarrow> string \<Rightarrow> pyval BazelTarget" where
  "populate_step kwargs target attr_name =
     (case map_of kwargs attr_name of
        None \<Rightarrow> target
      | Some (StrList values) \<Rightarrow> add_attribute target attr_name values
      | Some (Str v) \<Rightarrow> add_attribute target attr_name [v])"

definition populate_target ::
  "pyval BazelTarget \<Rightarrow> (string \<times> pyval) list \<Rightarrow> pyval BazelTarget" where
  "populate_target target kwargs =
     foldl (populate_step kwargs) target [''hdrs'', ''srcs'', ''deps'', ''visibility'', ''data'']"

text \<open>
  The three recording functions \<^verbatim>\<open>cc_library\<close>, \<^verbatim>\<open>cc_test\<close> and \<^verbatim>\<open>cc_binary\<close> differ
  only in the rule type they record; \<open>kwargs_get_name\<close> is \<^verbatim>\<open>kwargs.get("name", "")\<close>.
\<close>

definition kwargs_get_name :: "(string \<times> pyval) list \<Rightarrow> pyval" where
  "kwargs_get_name kwargs = (case map_of kwargs ''name'' of None \<Rightarrow> Str [] | Some v \<Rightarrow> v)"

definition record_target :: "string \<Rightarrow> BazelParser \<Rightarrow> (string \<times> pyval) list \<Rightarrow> BazelParser" where
  "record_target rt self kwargs =
     (let target = BazelTarget_init rt (kwargs_get_name kwargs);
          target = populate_target target kwargs
      in self\<lparr>targets := targets self @ [target]\<rparr>)"

definition cc_library :: "BazelParser \<Rightarrow> (string \<times> pyval) list \<Rightarrow> BazelParser" where
  "cc_library = record_target ''cc_library''"

definition cc_test :: "BazelParser \<Rightarrow> (string \<times> pyval) list \<Rightarrow> BazelParser" where
  "cc_test = record_target ''cc_test''"

definition cc_binary :: "BazelParser \<Rightarrow> (string \<times> pyval) list \<Rightarrow> BazelParser" where
  "cc_binary = record_target ''cc_binary''"

text \<open>
  \<^verbatim>\<open>exec_globals\<close> and the execution of a module in it. A call looks its callee up first
  (\<^verbatim>\<open>NameError\<close> when it is not bound); \<^verbatim>\<open>load(*args, **kwargs)\<close> accepts any arguments
  and does nothing; the recording functions take keyword arguments only, so a positional
  argument raises \<^verbatim>\<open>TypeError\<close> before the body runs. An exception ends the execution
  and leaves the parser as the statements before it made it.
\<close>

datatype callable = Load | Cc_library | Cc_test | Cc_binary

definition exec_globals :: "string \<rightharpoonup> callable" where
  "exec_globals =
     map_of [(''load'', Load), (''cc_library'', Cc_library), (''cc_test'', Cc_test),
             (''cc_binary'', Cc_binary)]"

definition call_recorder ::
  "(BazelParser \<Rightarrow> (string \<times> pyval) list \<Rightarrow> BazelParser) \<Rightarrow> string \<Rightarrow> BazelParser \<Rightarrow>
   pyval list \<Rightarrow> (string \<times> pyval) list \<Rightarrow> (py_error + unit) \<times> BazelParser" where
  "call_recorder f fname self args kwargs =
     (if args \<noteq> [] then (Inl (TypeError fname), self) else (Inr (), f self kwargs))"

fun exec_stmt :: "BazelParser \<Rightarrow> stmt \<Rightarrow> (py_error + unit) \<times> BazelParser" where
  "exec_stmt self (Call f args kwargs) =
     (case exec_globals f of
        None \<Rightarrow> (Inl (NameError f), self)
      | Some Load \<Rightarrow> (Inr (), self)
      | Some Cc_library \<Rightarrow> call_recorder cc_library f self args kwargs
      | Some Cc_test \<Rightarrow> call_recorder cc_test f self args kwargs
      | Some Cc_binary \<Rightarrow> call_recorder cc_binary f self args kwargs)"

fun exec_module :: "BazelParser \<Rightarrow> stmt list \<Rightarrow> (py_error + unit) \<times> BazelParser" where
  "exec_module self [] = (Inr (), self)"
| "exec_module self (s # ss) =
     (case exec_stmt self s of
        (Inl e, self') \<Rightarrow> (Inl e, self')
      | (Inr _, self') \<Rightarrow> exec_module self' ss)"

text \<open>
  \<^verbatim>\<open>parse_file\<close>: \<open>descriptors\<close> gives, for each path that can be opened for reading, the
  text found there. The result pairs what the call returns or raises with the parser
  instance afterwards.
\<close>

definition parse_file ::
  "(string \<rightharpoonup> py_source) \<Rightarrow> BazelParser \<Rightarrow> string \<Rightarrow>
   (py_error + pyval BazelTarget list) \<times> BazelParser" where
  "parse_file descriptors self filepath =
     (case descriptors filepath of
        None \<Rightarrow> (Inl OSError, self)
      | Some Unparseable \<Rightarrow> (Inl SyntaxError, self)
      | Some (Module content) \<Rightarrow>
          (case exec_module self content of
             (Inl e, self') \<Rightarrow> (Inl e, self')
           | (Inr _, self') \<Rightarrow> (Inr (targets self'), self')))"

section \<open>The declarative reading of a descriptor\<close>

text \<open>
  What a descriptor declares, read off its statements without running them; the
  execution above is compared with it. These definitions follow the specification's
  description of the parser (a rule invocation declares one target; each of the five
  attributes is a string or a list of strings, a single string standing for a
  one-element sequence, and an absent attribute for the empty one), not the code.
  \<open>spec_runs\<close> holds of the statements within the parser's vocabulary: a
  \<^verbatim>\<open>load\<close> statement, or an invocation of one of the three rules with keyword arguments
  only.
\<close>

definition known_rule :: "string \<Rightarrow> bool" where
  "known_rule f = (f = ''cc_library'' \<or> f = ''cc_test'' \<or> f = ''cc_binary'')"

definition spec_attr_values :: "(string \<times> pyval) list \<Rightarrow> string \<Rightarrow> string list" where
  "spec_attr_values kwargs k =
     (case map_of kwargs k of
        None \<Rightarrow> []
      | Some (Str v) \<Rightarrow> [v]
      | Some (StrList vs) \<Rightarrow> vs)"

definition spec_target :: "string \<Rightarrow> (string \<times> pyval) list \<Rightarrow> pyval BazelTarget" where
  "spec_target rt kwargs =
     \<lparr>rule_type = rt,
      name = (case map_of kwargs ''name'' of None \<Rightarrow> Str [] | Some v \<Rightarrow> v),
      hdrs = spec_attr_values kwargs ''hdrs'',
      srcs = spec_attr_values kwargs ''srcs'',
      deps = spec_attr_values kwargs ''deps'',
      visibility = spec_attr_values kwargs ''visibility'',
      data = spec_attr_values kwargs ''data''\<rparr>"

definition spec_targets_of :: "stmt \<Rightarrow> pyval BazelTarget list" where
  "spec_targets_of s =
     (if known_rule (callee s) then [spec_target (callee s) (call_kwargs s)] else [])"

definition spec_runs :: "stmt \<Rightarrow> bool" where
  "spec_runs s = (callee s = ''load'' \<or> (known_rule (callee s) \<and> call_args s = []))"

section \<open>Facts about the string operations\<close>

lemma startswith_iff: "startswith s p \<longleftrightarrow> (\<exists>r. s = p @ r)"
  unfolding startswith_def
  by (metis append_eq_conv_conj append_take_drop_id)

text \<open>\<open>py_in\<close> is the substring relation.\<close>

lemma py_in_iff: "py_in sub s \<longleftrightarrow> (\<exists>pre post. s = pre @ sub @ post)"
proof (induction s)
  case Nil
  then show ?case by auto
next
  case (Cons c cs)
  show ?case
  proof
    assume "py_in sub (c # cs)"
    then consider "startswith (c # cs) sub" | "py_in sub cs" by auto
    then show "\<exists>pre post. c # cs = pre @ sub @ post"
    proof cases
      case 1
      then obtain r where "c # cs = sub @ r" by (auto simp: startswith_iff)
      then have "c # cs = [] @ sub @ r" by simp
      then show ?thesis by blast
    next
      case 2
      then obtain pre post where "cs = pre @ sub @ post" using Cons.IH by blast
      then have "c # cs = (c # pre) @ sub @ post" by simp
      then show ?thesis by blast
    qed
  next
    assume "\<exists>pre post. c # cs = pre @ sub @ post"
    then obtain pre post where e: "c # cs = pre @ sub @ post" by blast
    show "py_in sub (c # cs)"
    proof (cases pre)
      case Nil
      with e have "startswith (c # cs) sub" by (auto simp: startswith_iff)
      then show ?thesis by simp
    next
      case (Cons a pre')
      with e have "cs = pre' @ sub @ post" by simp
      then have "py_in sub cs" using Cons.IH by blast
      then show ?thesis by simp
    qed
  qed
qed

lemma py_in_mid: "py_in sub (pre @ sub @ post)"
  using py_in_iff by blast

lemma py_in_char: "py_in [c] s \<longleftrightarrow> c \<in> set s"
  by (induction s) (auto simp: startswith_def)

lemma py_split_nonempty [simp]: "py_split c s \<noteq> []"
  by (induction s) (auto split: list.splits)

lemma py_split_without_sep: "c \<notin> set n \<Longrightarrow> py_split c n = [n]"
  by (induction n) auto

lemma py_split_append: "py_split c (xs @ c # ys) = py_split c xs @ py_split c ys"
proof (induction xs)
  case Nil
  show ?case by simp
next
  case (Cons x xs)
  obtain w ws where "py_split c xs = w # ws"
    using py_split_nonempty [of c xs] by (cases "py_split c xs") auto
  with Cons show ?case by simp
qed

lemma last_py_split: "c \<notin> set n \<Longrightarrow> last (py_split c (pre @ c # n)) = n"
  by (simp add: py_split_append py_split_without_sep)

lemma foldl_append_step: "foldl (\<lambda>acc x. acc @ f x) a xs = a @ concat (map f xs)"
  by (induction xs arbitrary: a) auto

section \<open>Reference resolution\<close>

lemma convert_deps_concat: "convert_deps_to_cmake ds = concat (map convert_dep ds)"
  by (simp add: convert_deps_to_cmake_def foldl_append_step)

lemma convert_deps_append:
  "convert_deps_to_cmake (xs @ ys) = convert_deps_to_cmake xs @ convert_deps_to_cmake ys"
  by (simp add: convert_deps_concat)

lemma convert_deps_single: "convert_deps_to_cmake [d] = convert_dep d"
  by (simp add: convert_deps_concat)

lemma convert_deps_Nil [simp]: "convert_deps_to_cmake [] = []"
  by (simp add: convert_deps_concat)

lemma convert_dep_local: "convert_dep ('':'' @ foo) = [foo]"
  by (simp add: convert_dep_def startswith_def)

lemma convert_dep_package_colon:
  assumes "CHR '':'' \<notin> set foo"
  shows "convert_dep (''//'' @ p @ '':'' @ foo) = [foo]"
proof -
  have a: "py_in '':'' (''//'' @ p @ '':'' @ foo)"
    using py_in_mid [of "'':''" "''//'' @ p" foo] by simp
  have b: "last (py_split (CHR '':'') (''//'' @ p @ '':'' @ foo)) = foo"
    using last_py_split [OF assms, of "''//'' @ p"] by simp
  have c: "\<not> startswith (''//'' @ p @ '':'' @ foo) '':''"
    by (simp add: startswith_def)
  have d: "startswith (''//'' @ p @ '':'' @ foo) ''//''"
    by (simp add: startswith_def)
  show ?thesis
    unfolding convert_dep_def using a b c d by simp
qed

lemma convert_dep_package_slash:
  assumes "CHR '':'' \<notin> set p" "CHR '':'' \<notin> set b" "CHR ''/'' \<notin> set b"
  shows "convert_dep (''//'' @ p @ ''/'' @ b) = [b]"
proof -
  have "CHR '':'' \<notin> set (''//'' @ p @ ''/'' @ b)"
    using assms by simp
  then have a: "\<not> py_in '':'' (''//'' @ p @ ''/'' @ b)"
    unfolding py_in_char .
  have b: "last (py_split (CHR ''/'') (''//'' @ p @ ''/'' @ b)) = b"
    using last_py_split [OF assms(3), of "''//'' @ p"] by simp
  have c: "\<not> startswith (''//'' @ p @ ''/'' @ b) '':''"
    by (simp add: startswith_def)
  have d: "startswith (''//'' @ p @ ''/'' @ b) ''//''"
    by (simp add: startswith_def)
  show ?thesis
    unfolding convert_dep_def using a b c d by simp
qed

lemma convert_dep_gtest_main:
  "convert_dep ''@com_google_googletest//:gtest_main'' = [''GTest::gtest_main'']"
  by (simp add: convert_dep_def startswith_def)

lemma convert_dep_gtest:
  "convert_dep ''@com_google_googletest//:gtest'' = [''GTest::gtest'']"
  by (simp add: convert_dep_def startswith_def)

lemma convert_dep_unresolved:
  assumes "\<not> startswith d '':''" "\<not> startswith d ''//''"
    "\<not> py_in ''@com_google_googletest//:gtest_main'' d"
    "\<not> py_in ''@com_google_googletest//:gtest'' d"
    "\<not> (startswith d ''@'' \<and> (py_in ''googletest'' d \<or> py_in ''gtest'' d))"
  shows "convert_dep d = []"
  using assms unfolding convert_dep_def by auto

text \<open>Every resolved identifier of a target's dependencies is a line of its block.\<close>

lemma link_lines_emitted:
  assumes "rule_type t = ''cc_library'' \<or> rule_type t = ''cc_test'' \<or> rule_type t = ''cc_binary''"
    and "r \<in> set (convert_deps_to_cmake (deps t))"
  shows "''    '' @ r \<in> set (generate_target t)"
proof -
  from assms(2) have ne: "convert_deps_to_cmake (deps t) \<noteq> []" "deps t \<noteq> []"
    by auto
  from assms(2) have m: "''    '' @ r \<in> (\<lambda>dep. ''    '' @ dep) ` set (convert_deps_to_cmake (deps t))"
    by blast
  from assms(1) show ?thesis
  proof (elim disjE)
    assume "rule_type t = ''cc_library''"
    then show ?thesis using ne m
      by (simp add: generate_target_def generate_library_target_def Let_def)
  next
    assume "rule_type t = ''cc_test''"
    then show ?thesis using ne m
      by (simp add: generate_target_def generate_test_target_def Let_def)
  next
    assume "rule_type t = ''cc_binary''"
    then show ?thesis using ne m
      by (simp add: generate_target_def generate_binary_target_def Let_def)
  qed
qed

text \<open>A target's block depends on its dependencies only through their resolution.\<close>

lemma generate_target_deps_cong:
  assumes "convert_deps_to_cmake ds = convert_deps_to_cmake ds'"
  shows "generate_target (t\<lparr>deps := ds\<rparr>) = generate_target (t\<lparr>deps := ds'\<rparr>)"
proof -
  have lib: "generate_library_target (t\<lparr>deps := ds\<rparr>) = generate_library_target (t\<lparr>deps := ds'\<rparr>)"
  proof (cases "convert_deps_to_cmake ds = []")
    case True
    with assms have "convert_deps_to_cmake ds' = []" by simp
    with True show ?thesis
      by (simp add: generate_library_target_def Let_def)
  next
    case False
    with assms have "convert_deps_to_cmake ds' \<noteq> []" by simp
    with False have "ds \<noteq> []" "ds' \<noteq> []" by auto
    with assms show ?thesis
      by (simp add: generate_library_target_def Let_def)
  qed
  have tst: "generate_test_target (t\<lparr>deps := ds\<rparr>) = generate_test_target (t\<lparr>deps := ds'\<rparr>)"
    using assms by (simp add: generate_test_target_def Let_def)
  have bin: "generate_binary_target (t\<lparr>deps := ds\<rparr>) = generate_binary_target (t\<lparr>deps := ds'\<rparr>)"
    using assms by (simp add: generate_binary_target_def Let_def)
  show ?thesis
    using lib tst bin by (simp add: generate_target_def)
qed

text \<open>
  Claim C6. Wherever it stands in a dependency list, a local reference \<^verbatim>\<open>:foo\<close> resolves
  to \<^verbatim>\<open>foo\<close>; a package-path reference \<^verbatim>\<open>//p:foo\<close> resolves to the text after its last
  colon; a package-path reference \<^verbatim>\<open>//p/b\<close> without a colon resolves to the text after
  its last slash; the testing framework's main-entry-point reference and its plain
  reference resolve to two fixed, different identifiers. Every identifier so resolved is
  a line of the link-dependency list of the target's block, for each of the three rule
  kinds.
\<close>

theorem reference_resolution:
  "convert_deps_to_cmake (xs @ ['':'' @ foo] @ ys) =
     convert_deps_to_cmake xs @ [foo] @ convert_deps_to_cmake ys
   \<and> (CHR '':'' \<notin> set foo \<longrightarrow>
        convert_deps_to_cmake (xs @ [''//'' @ p @ '':'' @ foo] @ ys) =
          convert_deps_to_cmake xs @ [foo] @ convert_deps_to_cmake ys)
   \<and> (CHR '':'' \<notin> set p \<and> CHR '':'' \<notin> set b \<and> CHR ''/'' \<notin> set b \<longrightarrow>
        convert_deps_to_cmake (xs @ [''//'' @ p @ ''/'' @ b] @ ys) =
          convert_deps_to_cmake xs @ [b] @ convert_deps_to_cmake ys)
   \<and> convert_deps_to_cmake (xs @ [''@com_google_googletest//:gtest_main''] @ ys) =
        convert_deps_to_cmake xs @ [''GTest::gtest_main''] @ convert_deps_to_cmake ys
   \<and> convert_deps_to_cmake (xs @ [''@com_google_googletest//:gtest''] @ ys) =
        convert_deps_to_cmake xs @ [''GTest::gtest''] @ convert_deps_to_cmake ys
   \<and> ''GTest::gtest_main'' \<noteq> ''GTest::gtest''
   \<and> ((rule_type t = ''cc_library'' \<or> rule_type t = ''cc_test'' \<or> rule_type t = ''cc_binary'') \<and>
        r \<in> set (convert_deps_to_cmake (deps t)) \<longrightarrow>
        ''    '' @ r \<in> set (generate_target t))"
proof (intro conjI impI)
  show "convert_deps_to_cmake (xs @ ['':'' @ foo] @ ys) =
     convert_deps_to_cmake xs @ [foo] @ convert_deps_to_cmake ys"
    by (simp only: convert_deps_append convert_deps_single convert_dep_local)
next
  assume "CHR '':'' \<notin> set foo"
  then have "convert_dep (''//'' @ p @ '':'' @ foo) = [foo]"
    by (rule convert_dep_package_colon)
  then show "convert_deps_to_cmake (xs @ [''//'' @ p @ '':'' @ foo] @ ys) =
          convert_deps_to_cmake xs @ [foo] @ convert_deps_to_cmake ys"
    by (simp only: convert_deps_append convert_deps_single)
next
  assume "CHR '':'' \<notin> set p \<and> CHR '':'' \<notin> set b \<and> CHR ''/'' \<notin> set b"
  then have "convert_dep (''//'' @ p @ ''/'' @ b) = [b]"
    using convert_dep_package_slash by blast
  then show "convert_deps_to_cmake (xs @ [''//'' @ p @ ''/'' @ b] @ ys) =
          convert_deps_to_cmake xs @ [b] @ convert_deps_to_cmake ys"
    by (simp only: convert_deps_append convert_deps_single)
next
  show "convert_deps_to_cmake (xs @ [''@com_google_googletest//:gtest_main''] @ ys) =
        convert_deps_to_cmake xs @ [''GTest::gtest_main''] @ convert_deps_to_cmake ys"
    by (simp only: convert_deps_append convert_deps_single convert_dep_gtest_main)
next
  show "convert_deps_to_cmake (xs @ [''@com_google_googletest//:gtest''] @ ys) =
        convert_deps_to_cmake xs @ [''GTest::gtest''] @ convert_deps_to_cmake ys"
    by (simp only: convert_deps_append convert_deps_single convert_dep_gtest)
next
  show "''GTest::gtest_main'' \<noteq> ''GTest::gtest''" by simp
next
  assume "(rule_type t = ''cc_library'' \<or> rule_type t = ''cc_test'' \<or> rule_type t = ''cc_binary'') \<and>
        r \<in> set (convert_deps_to_cmake (deps t))"
  then show "''    '' @ r \<in> set (generate_target t)"
    using link_lines_emitted by blast
qed

theorem reference_resolution_witness:
  "convert_deps_to_cmake ['':foo''] = [''foo'']
   \<and> convert_deps_to_cmake [''//a/b:foo''] = [''foo'']
   \<and> convert_deps_to_cmake [''//a/b''] = [''b'']
   \<and> convert_deps_to_cmake [''@com_google_googletest//:gtest_main''] = [''GTest::gtest_main'']
   \<and> convert_deps_to_cmake [''@com_google_googletest//:gtest''] = [''GTest::gtest'']
   \<and> ''    foo'' \<in> set (generate_target
         \<lparr>rule_type = ''cc_test'', name = ''t'', hdrs = [], srcs = [''t.cc''],
          deps = ['':foo''], visibility = [], data = []\<rparr>)"
  using reference_resolution [where xs = "[]" and ys = "[]" and foo = "''foo''" and p = "''a/b''"
      and t = "\<lparr>rule_type = ''cc_test'', name = ''t'', hdrs = [], srcs = [''t.cc''],
          deps = ['':foo''], visibility = [], data = []\<rparr>" and r = "''foo''"]
    reference_resolution [where xs = "[]" and ys = "[]" and p = "''a''" and b = "''b''"]
  by (simp add: convert_deps_to_cmake_def convert_dep_def startswith_def)

text \<open>
  Claim C7. Resolution is a total function with no failing step (the only partial
  operation, indexing the last piece of a split, always has a piece to return). A
  dependency string that matches none of the resolution rules contributes nothing: the
  resolved list is the one obtained without it, and so is the block of any target that
  lists it.
\<close>

theorem unresolvable_reference_dropped:
  assumes "\<not> startswith d '':''" and "\<not> startswith d ''//''"
    and "\<not> py_in ''@com_google_googletest//:gtest_main'' d"
    and "\<not> py_in ''@com_google_googletest//:gtest'' d"
    and "\<not> (startswith d ''@'' \<and> (py_in ''googletest'' d \<or> py_in ''gtest'' d))"
  shows "convert_deps_to_cmake (xs @ [d] @ ys) = convert_deps_to_cmake (xs @ ys)
    \<and> generate_target (t\<lparr>deps := xs @ [d] @ ys\<rparr>) = generate_target (t\<lparr>deps := xs @ ys\<rparr>)
    \<and> py_split c s \<noteq> []"
proof -
  have "convert_dep d = []"
    using assms by (rule convert_dep_unresolved)
  then have e: "convert_deps_to_cmake (xs @ [d] @ ys) = convert_deps_to_cmake (xs @ ys)"
    by (simp add: convert_deps_concat)
  from e have "generate_target (t\<lparr>deps := xs @ [d] @ ys\<rparr>) = generate_target (t\<lparr>deps := xs @ ys\<rparr>)"
    by (rule generate_target_deps_cong)
  with e show ?thesis by simp
qed

theorem unresolvable_reference_dropped_witness:
  "convert_deps_to_cmake ['':a'', ''@boost//:filesystem'', '':b''] = convert_deps_to_cmake ['':a'', '':b'']
   \<and> convert_deps_to_cmake ['':a'', ''@boost//:filesystem'', '':b''] = [''a'', ''b'']
   \<and> generate_target \<lparr>rule_type = ''cc_binary'', name = ''app'', hdrs = [], srcs = [''app.cc''],
          deps = ['':a'', ''@boost//:filesystem'', '':b''], visibility = [], data = []\<rparr>
     = [''# Binary: app'', ''add_executable(app'', ''    app.cc'', '')'',
        ''target_link_libraries(app'', ''    a'', ''    b'', '')'']"
  using unresolvable_reference_dropped [where d = "''@boost//:filesystem''" and xs = "['':a'']"
      and ys = "['':b'']" and c = "CHR '':''" and s = "[]"
      and t = "\<lparr>rule_type = ''cc_binary'', name = ''app'', hdrs = [], srcs = [''app.cc''],
          deps = [], visibility = [], data = []\<rparr>"]
  by (simp add: convert_deps_to_cmake_def convert_dep_def startswith_def generate_target_def
      generate_binary_target_def Let_def)

section \<open>The structure of the generated script\<close>


lemma foldl_find_step:
  "foldl find_external_deps_step e ds =
     (if \<exists>d\<in>set ds. startswith d ''@'' \<and> (py_in ''googletest'' d \<or> py_in ''gtest'' d)
      then insert ''GTest'' e else e)"
  by (induction ds arbitrary: e) (auto simp: find_external_deps_step_def)

lemma foldl_find_targets:
  "foldl (\<lambda>external_deps target. foldl find_external_deps_step external_deps (deps target)) e ts =
     (if \<exists>t\<in>set ts. \<exists>d\<in>set (deps t). startswith d ''@'' \<and> (py_in ''googletest'' d \<or> py_in ''gtest'' d)
      then insert ''GTest'' e else e)"
  by (induction ts arbitrary: e) (auto simp: foldl_find_step)

lemma find_external_deps_eq:
  "find_external_deps ts =
     (if \<exists>t\<in>set ts. \<exists>d\<in>set (deps t). startswith d ''@'' \<and> (py_in ''googletest'' d \<or> py_in ''gtest'' d)
      then {''GTest''} else {})"
  by (simp add: find_external_deps_def foldl_find_targets)

lemma cmake_lines_eq:
  "cmake_lines g ts =
     generate_header g @ [''''] @
     (if find_external_deps ts \<noteq> {}
      then generate_find_package_section (find_external_deps ts) @ [''''] else []) @
     concat (map (\<lambda>t. generate_target t @ ['''']) ts) @
     (if library_targets_of ts \<noteq> [] then generate_install_rules (library_targets_of ts) else [])"
  by (simp add: cmake_lines_def Let_def foldl_append_step)

lemma target_line_head:
  assumes "l \<in> set (generate_target t)"
  shows "\<exists>c r. l = c # r \<and> (c = CHR ''#'' \<or> c = CHR ''a'' \<or> c = CHR ''t'' \<or> c = CHR '')'' \<or> c = CHR '' '')"
  using assms
  by (auto simp: generate_target_def generate_library_target_def generate_test_target_def
      generate_binary_target_def Let_def split: if_splits)

lemma header_line_head:
  assumes "l \<in> set (generate_header g)"
  shows "l = [] \<or> (\<exists>c r. l = c # r \<and> (c = CHR ''#'' \<or> c = CHR ''c'' \<or> c = CHR ''p'' \<or> c = CHR ''s'' \<or> c = CHR ''e''))
     \<or> l = ''include(CTest)''"
  using assms by (auto simp: generate_header_def)


lemma target_block_in_output:
  assumes "t \<in> set ts"
  shows "\<exists>pre post. cmake_lines g ts = pre @ generate_target t @ [''''] @ post"
proof -
  from assms obtain xs ys where ts: "ts = xs @ t # ys"
    by (auto simp: in_set_conv_decomp)
  let ?blk = "\<lambda>t. generate_target t @ ['''']"
  have "concat (map ?blk ts) = concat (map ?blk xs) @ generate_target t @ [''''] @ concat (map ?blk ys)"
    by (simp add: ts)
  then have "cmake_lines g ts =
      (generate_header g @ [''''] @
       (if find_external_deps ts \<noteq> {}
        then generate_find_package_section (find_external_deps ts) @ [''''] else []) @
        concat (map ?blk xs)) @ generate_target t @ [''''] @
      (concat (map ?blk ys) @
       (if library_targets_of ts \<noteq> [] then generate_install_rules (library_targets_of ts) else []))"
    by (simp add: cmake_lines_eq)
  then show ?thesis by blast
qed

lemma library_header_only:
  assumes "rule_type t = ''cc_library''" "srcs t = []" "hdrs t \<noteq> []"
  shows "generate_target t =
      [''# Library: '' @ name t,
       ''add_library('' @ name t @ '' INTERFACE)'',
       ''target_sources('' @ name t @ '' INTERFACE''] @
      map (\<lambda>hdr. ''    ${CMAKE_CURRENT_SOURCE_DIR}/'' @ hdr) (hdrs t) @
      ['')'',
       ''target_include_directories('' @ name t @ '' INTERFACE'',
       ''    $<BUILD_INTERFACE:${CMAKE_CURRENT_SOURCE_DIR}>'',
       ''    $<INSTALL_INTERFACE:include>'',
       '')''] @
      (if convert_deps_to_cmake (deps t) = [] then []
       else [''target_link_libraries('' @ name t @ '' INTERFACE''] @
            map (\<lambda>dep. ''    '' @ dep) (convert_deps_to_cmake (deps t)) @ ['')''])"
proof (cases "deps t = []")
  case True
  with assms show ?thesis
    by (simp add: generate_target_def generate_library_target_def Let_def)
next
  case False
  with assms show ?thesis
    by (simp add: generate_target_def generate_library_target_def Let_def)
qed

lemma library_compiled:
  assumes "rule_type t = ''cc_library''" "srcs t \<noteq> []"
  shows "generate_target t =
      [''# Library: '' @ name t,
       ''add_library('' @ name t] @
      map (\<lambda>src. ''    '' @ src) (srcs t @ hdrs t) @
      ['')'',
       ''target_include_directories('' @ name t @ '' PUBLIC'',
       ''    $<BUILD_INTERFACE:${CMAKE_CURRENT_SOURCE_DIR}>'',
       ''    $<INSTALL_INTERFACE:include>'',
       '')''] @
      (if convert_deps_to_cmake (deps t) = [] then []
       else [''target_link_libraries('' @ name t @ '' PUBLIC''] @
            map (\<lambda>dep. ''    '' @ dep) (convert_deps_to_cmake (deps t)) @ ['')''])"
proof (cases "deps t = []")
  case True
  with assms show ?thesis
    by (simp add: generate_target_def generate_library_target_def Let_def)
next
  case False
  with assms show ?thesis
    by (simp add: generate_target_def generate_library_target_def Let_def)
qed

lemma header_only_not_compiled:
  assumes "rule_type t = ''cc_library''" "srcs t = []" "hdrs t \<noteq> []"
  shows "''add_library('' @ name t \<notin> set (generate_target t)"
  unfolding library_header_only [OF assms] by auto

lemma compiled_not_interface:
  assumes "rule_type t = ''cc_library''" "srcs t \<noteq> []"
  shows "''add_library('' @ name t @ '' INTERFACE)'' \<notin> set (generate_target t)"
  unfolding library_compiled [OF assms] by auto

text \<open>
  Claim C1. A \<^verbatim>\<open>cc_library\<close> target with no sources and at least one header is rendered as
  an interface-only unit: its block is \<^verbatim>\<open>add_library(name INTERFACE)\<close>, then every header,
  in order, as an interface source, then the interface include directories (and the
  resolved dependencies, if any); the compiled-unit declaration \<^verbatim>\<open>add_library(name\<close> is not
  a line of the block. A \<^verbatim>\<open>cc_library\<close> target with sources is rendered as a compiled
  unit listing its sources and then its headers, and the interface declaration is not a
  line of its block. The block is part of the generated script of any target sequence
  that holds the target.
\<close>

theorem library_rendering:
  assumes "rule_type t = ''cc_library''"
  shows "(srcs t = [] \<and> hdrs t \<noteq> [] \<longrightarrow>
       generate_target t =
         [''# Library: '' @ name t,
          ''add_library('' @ name t @ '' INTERFACE)'',
          ''target_sources('' @ name t @ '' INTERFACE''] @
         map (\<lambda>hdr. ''    ${CMAKE_CURRENT_SOURCE_DIR}/'' @ hdr) (hdrs t) @
         ['')'',
          ''target_include_directories('' @ name t @ '' INTERFACE'',
          ''    $<BUILD_INTERFACE:${CMAKE_CURRENT_SOURCE_DIR}>'',
          ''    $<INSTALL_INTERFACE:include>'',
          '')''] @
         (if convert_deps_to_cmake (deps t) = [] then []
          else [''target_link_libraries('' @ name t @ '' INTERFACE''] @
               map (\<lambda>dep. ''    '' @ dep) (convert_deps_to_cmake (deps t)) @ ['')''])
       \<and> ''add_library('' @ name t \<notin> set (generate_target t))
    \<and> (srcs t \<noteq> [] \<longrightarrow>
       generate_target t =
         [''# Library: '' @ name t,
          ''add_library('' @ name t] @
         map (\<lambda>src. ''    '' @ src) (srcs t @ hdrs t) @
         ['')'',
          ''target_include_directories('' @ name t @ '' PUBLIC'',
          ''    $<BUILD_INTERFACE:${CMAKE_CURRENT_SOURCE_DIR}>'',
          ''    $<INSTALL_INTERFACE:include>'',
          '')''] @
         (if convert_deps_to_cmake (deps t) = [] then []
          else [''target_link_libraries('' @ name t @ '' PUBLIC''] @
               map (\<lambda>dep. ''    '' @ dep) (convert_deps_to_cmake (deps t)) @ ['')''])
       \<and> ''add_library('' @ name t @ '' INTERFACE)'' \<notin> set (generate_target t))
    \<and> (t \<in> set ts \<longrightarrow> (\<exists>pre post. cmake_lines g ts = pre @ generate_target t @ [''''] @ post))"
  using library_header_only [OF assms] header_only_not_compiled [OF assms]
    library_compiled [OF assms] compiled_not_interface [OF assms]
    target_block_in_output [of t ts g]
  by blast

theorem library_rendering_witness:
  "generate_target \<lparr>rule_type = ''cc_library'', name = ''utils'', hdrs = [''a.h'', ''b.h''],
        srcs = [], deps = ['':base_lib''], visibility = [], data = []\<rparr> =
     [''# Library: utils'',
      ''add_library(utils INTERFACE)'',
      ''target_sources(utils INTERFACE'',
      ''    ${CMAKE_CURRENT_SOURCE_DIR}/a.h'',
      ''    ${CMAKE_CURRENT_SOURCE_DIR}/b.h'',
      '')'',
      ''target_include_directories(utils INTERFACE'',
      ''    $<BUILD_INTERFACE:${CMAKE_CURRENT_SOURCE_DIR}>'',
      ''    $<INSTALL_INTERFACE:include>'',
      '')'',
      ''target_link_libraries(utils INTERFACE'',
      ''    base_lib'',
      '')'']
   \<and> generate_target \<lparr>rule_type = ''cc_library'', name = ''my_lib'', hdrs = [''my_lib.h''],
        srcs = [''my_lib.cc''], deps = [], visibility = [], data = []\<rparr> =
     [''# Library: my_lib'',
      ''add_library(my_lib'',
      ''    my_lib.cc'',
      ''    my_lib.h'',
      '')'',
      ''target_include_directories(my_lib PUBLIC'',
      ''    $<BUILD_INTERFACE:${CMAKE_CURRENT_SOURCE_DIR}>'',
      ''    $<INSTALL_INTERFACE:include>'',
      '')'']
   \<and> (\<exists>pre post. cmake_lines (CMakeGenerator_init ''p'')
          [\<lparr>rule_type = ''cc_library'', name = ''utils'', hdrs = [''a.h'', ''b.h''],
            srcs = [], deps = ['':base_lib''], visibility = [], data = []\<rparr>] =
        pre @ generate_target \<lparr>rule_type = ''cc_library'', name = ''utils'', hdrs = [''a.h'', ''b.h''],
            srcs = [], deps = ['':base_lib''], visibility = [], data = []\<rparr> @ [''''] @ post)"
proof -
  let ?u = "\<lparr>rule_type = ''cc_library'', name = ''utils'', hdrs = [''a.h'', ''b.h''],
        srcs = [], deps = ['':base_lib''], visibility = [], data = []\<rparr>"
  let ?m = "\<lparr>rule_type = ''cc_library'', name = ''my_lib'', hdrs = [''my_lib.h''],
        srcs = [''my_lib.cc''], deps = [], visibility = [], data = []\<rparr>"
  have u: "rule_type ?u = ''cc_library''" and m: "rule_type ?m = ''cc_library''"
    by simp_all
  have hu: "srcs ?u = [] \<and> hdrs ?u \<noteq> []" and hm: "srcs ?m \<noteq> []" and mem: "?u \<in> set [?u]"
    by simp_all
  have a: "generate_target ?u =
     [''# Library: utils'',
      ''add_library(utils INTERFACE)'',
      ''target_sources(utils INTERFACE'',
      ''    ${CMAKE_CURRENT_SOURCE_DIR}/a.h'',
      ''    ${CMAKE_CURRENT_SOURCE_DIR}/b.h'',
      '')'',
      ''target_include_directories(utils INTERFACE'',
      ''    $<BUILD_INTERFACE:${CMAKE_CURRENT_SOURCE_DIR}>'',
      ''    $<INSTALL_INTERFACE:include>'',
      '')'',
      ''target_link_libraries(utils INTERFACE'',
      ''    base_lib'',
      '')'']"
    using library_rendering [OF u, of "[?u]" "CMakeGenerator_init ''p''"] hu
    by (simp add: convert_deps_to_cmake_def convert_dep_def startswith_def)
  have b: "generate_target ?m =
     [''# Library: my_lib'',
      ''add_library(my_lib'',
      ''    my_lib.cc'',
      ''    my_lib.h'',
      '')'',
      ''target_include_directories(my_lib PUBLIC'',
      ''    $<BUILD_INTERFACE:${CMAKE_CURRENT_SOURCE_DIR}>'',
      ''    $<INSTALL_INTERFACE:include>'',
      '')'']"
    using library_rendering [OF m, of "[]" "CMakeGenerator_init ''p''"] hm
    by (simp add: convert_deps_to_cmake_def)
  have c: "\<exists>pre post. cmake_lines (CMakeGenerator_init ''p'') [?u] =
        pre @ generate_target ?u @ [''''] @ post"
    using library_rendering [OF u, of "[?u]" "CMakeGenerator_init ''p''"] mem by blast
  show ?thesis
    by (intro conjI) (rule a, rule b, rule c)
qed


lemma foldl_install_files:
  "foldl install_files_step a libs =
     a @ concat (map (\<lambda>t. if hdrs t \<noteq> [] then
                            [''install(FILES''] @ map (\<lambda>hdr. ''    '' @ hdr) (hdrs t) @
                            [''    DESTINATION include)'']
                          else []) libs)"
  by (induction libs arbitrary: a) (auto simp: install_files_step_def)

lemma generate_install_rules_eq:
  "generate_install_rules libs =
     [''# Install rules''] @
     concat (map (\<lambda>t. if hdrs t \<noteq> [] then
                        [''install(FILES''] @ map (\<lambda>hdr. ''    '' @ hdr) (hdrs t) @
                        [''    DESTINATION include)'']
                      else []) libs) @
     (if libs = [] then []
      else [''install(TARGETS''] @ map (\<lambda>t. ''    '' @ name t) libs @
           [''    EXPORT ${PROJECT_NAME}Targets'',
            ''    LIBRARY DESTINATION lib'',
            ''    ARCHIVE DESTINATION lib'',
            ''    RUNTIME DESTINATION bin'',
            ''    INCLUDES DESTINATION include)''])"
  by (simp add: generate_install_rules_def Let_def foldl_install_files comp_def)

lemma install_line_head:
  assumes "l \<in> set (generate_install_rules libs)"
  shows "\<exists>c r. l = c # r \<and> (c = CHR ''#'' \<or> c = CHR ''i'' \<or> c = CHR '' '')"
  using assms unfolding generate_install_rules_eq
  by (auto split: if_splits)

lemma fetch_line_absent_header: "''FetchContent_Declare('' \<notin> set (generate_header g)"
  using header_line_head [of "''FetchContent_Declare(''" g] by auto

lemma fetch_line_absent_target: "''FetchContent_Declare('' \<notin> set (generate_target t)"
  using target_line_head [of "''FetchContent_Declare(''" t] by auto

lemma fetch_line_absent_install: "''FetchContent_Declare('' \<notin> set (generate_install_rules libs)"
  using install_line_head [of "''FetchContent_Declare(''" libs] by auto

lemma find_package_section_GTest:
  "generate_find_package_section {''GTest''} =
     [''# External dependencies'',
      ''include(FetchContent)'',
      '''',
      ''# Fetch GoogleTest'',
      ''FetchContent_Declare('',
      ''    googletest'',
      ''    GIT_REPOSITORY https://github.com/google/googletest.git'',
      ''    GIT_TAG        v1.14.0'',
      '')'',
      ''FetchContent_MakeAvailable(googletest)'']"
  by (simp add: generate_find_package_section_def)

text \<open>
  Claim C4, as amended. The fetch block for the testing framework, pinned to the tag
  \<^verbatim>\<open>v1.14.0\<close>, is emitted (right after the preamble) if and only if some target has a
  dependency string that starts with \<^verbatim>\<open>@\<close> and contains \<^verbatim>\<open>googletest\<close> or \<^verbatim>\<open>gtest\<close>.
\<close>

theorem fetch_block_emitted:
  "(''FetchContent_Declare('' \<in> set (cmake_lines g ts) \<longleftrightarrow>
      (\<exists>t\<in>set ts. \<exists>d\<in>set (deps t).
         startswith d ''@'' \<and> (py_in ''googletest'' d \<or> py_in ''gtest'' d)))
   \<and> ((\<exists>t\<in>set ts. \<exists>d\<in>set (deps t).
         startswith d ''@'' \<and> (py_in ''googletest'' d \<or> py_in ''gtest'' d)) \<longrightarrow>
       (\<exists>post. cmake_lines g ts =
          generate_header g @ [''''] @
          [''# External dependencies'',
           ''include(FetchContent)'',
           '''',
           ''# Fetch GoogleTest'',
           ''FetchContent_Declare('',
           ''    googletest'',
           ''    GIT_REPOSITORY https://github.com/google/googletest.git'',
           ''    GIT_TAG        v1.14.0'',
           '')'',
           ''FetchContent_MakeAvailable(googletest)'',
           ''''] @ post))"
proof (cases "\<exists>t\<in>set ts. \<exists>d\<in>set (deps t).
         startswith d ''@'' \<and> (py_in ''googletest'' d \<or> py_in ''gtest'' d)")
  case True
  then have f: "find_external_deps ts = {''GTest''}"
    by (simp add: find_external_deps_eq)
  have e: "cmake_lines g ts =
      generate_header g @ [''''] @ (generate_find_package_section {''GTest''} @ ['''']) @
      (concat (map (\<lambda>t. generate_target t @ ['''']) ts) @
       (if library_targets_of ts \<noteq> [] then generate_install_rules (library_targets_of ts) else []))"
    by (simp add: cmake_lines_eq f)
  have m: "''FetchContent_Declare('' \<in> set (cmake_lines g ts)"
    by (simp add: e find_package_section_GTest)
  from e have "\<exists>post. cmake_lines g ts =
          generate_header g @ [''''] @
          [''# External dependencies'',
           ''include(FetchContent)'',
           '''',
           ''# Fetch GoogleTest'',
           ''FetchContent_Declare('',
           ''    googletest'',
           ''    GIT_REPOSITORY https://github.com/google/googletest.git'',
           ''    GIT_TAG        v1.14.0'',
           '')'',
           ''FetchContent_MakeAvailable(googletest)'',
           ''''] @ post"
    by (simp add: find_package_section_GTest)
  with True m show ?thesis by blast
next
  case False
  then have f: "find_external_deps ts = {}"
    by (simp add: find_external_deps_eq)
  have "''FetchContent_Declare('' \<notin> set (cmake_lines g ts)"
    by (simp add: cmake_lines_eq f fetch_line_absent_header fetch_line_absent_target
        fetch_line_absent_install)
  with False show ?thesis by blast
qed


theorem fetch_block_emitted_witness:
  "''FetchContent_Declare('' \<in> set (cmake_lines (CMakeGenerator_init ''p'')
       [\<lparr>rule_type = ''cc_test'', name = ''t'', hdrs = [], srcs = [''t.cc''],
         deps = [''@com_google_googletest//:gtest_main''], visibility = [], data = []\<rparr>])
   \<and> ''FetchContent_Declare('' \<notin> set (cmake_lines (CMakeGenerator_init ''p'')
       [\<lparr>rule_type = ''cc_test'', name = ''t'', hdrs = [], srcs = [''t.cc''],
         deps = ['':my_lib''], visibility = [], data = []\<rparr>])"
  using fetch_block_emitted [of "CMakeGenerator_init ''p''"
      "[\<lparr>rule_type = ''cc_test'', name = ''t'', hdrs = [], srcs = [''t.cc''],
         deps = [''@com_google_googletest//:gtest_main''], visibility = [], data = []\<rparr>]"]
    fetch_block_emitted [of "CMakeGenerator_init ''p''"
      "[\<lparr>rule_type = ''cc_test'', name = ''t'', hdrs = [], srcs = [''t.cc''],
         deps = ['':my_lib''], visibility = [], data = []\<rparr>]"]
  by (simp add: startswith_def)

text \<open>
  Claim C4 as stated fails: the substring match alone does not decide. A dependency that
  contains \<^verbatim>\<open>googletest\<close> but does not start with \<^verbatim>\<open>@\<close> gives a script with no fetch
  block.
\<close>

theorem fetch_block_substring_counterexample:
  "py_in ''googletest'' ''//third_party/googletest:gtest_main''
   \<and> cmake_lines (CMakeGenerator_init ''p'')
       [\<lparr>rule_type = ''cc_test'', name = ''t'', hdrs = [], srcs = [''t.cc''],
         deps = [''//third_party/googletest:gtest_main''], visibility = [], data = []\<rparr>] =
     [''cmake_minimum_required(VERSION 3.20)'',
      ''project(p LANGUAGES CXX)'',
      '''',
      ''set(CMAKE_CXX_STANDARD 20)'',
      ''set(CMAKE_CXX_STANDARD_REQUIRED ON)'',
      ''set(CMAKE_CXX_EXTENSIONS OFF)'',
      '''',
      ''# Enable testing'',
      ''include(CTest)'',
      ''enable_testing()'',
      '''',
      ''# Test: t'',
      ''add_executable(t'',
      ''    t.cc'',
      '')'',
      ''target_link_libraries(t'',
      ''    gtest_main'',
      '')'',
      ''add_test(NAME t COMMAND t)'',
      '''']"
  by (simp add: cmake_lines_def CMakeGenerator_init_def generate_header_def find_external_deps_def
      find_external_deps_step_def generate_target_def generate_test_target_def
      library_targets_of_def convert_deps_to_cmake_def convert_dep_def startswith_def Let_def)

lemma test_target_eq:
  assumes "rule_type t = ''cc_test''"
  shows "generate_target t =
      [''# Test: '' @ name t, ''add_executable('' @ name t] @
      map (\<lambda>src. ''    '' @ src) (srcs t) @
      ['')''] @
      (if convert_deps_to_cmake (deps t) = [] then []
       else [''target_link_libraries('' @ name t] @
            map (\<lambda>dep. ''    '' @ dep) (convert_deps_to_cmake (deps t)) @ ['')'']) @
      [''add_test(NAME '' @ name t @ '' COMMAND '' @ name t @ '')'']"
  using assms by (simp add: generate_target_def generate_test_target_def Let_def)

lemma test_target_no_link:
  assumes "rule_type t = ''cc_test''" "convert_deps_to_cmake (deps t) = []"
  shows "''target_link_libraries('' @ name t \<notin> set (generate_target t)"
  unfolding test_target_eq [OF assms(1)] using assms(2) by auto

text \<open>
  Claim C5, as amended. The block of a \<^verbatim>\<open>cc_test\<close> target is an executable declaration
  listing its sources; then, exactly when at least one dependency survives reference
  resolution, a link-dependency declaration listing the resolved identifiers; then,
  always, the test-registration entry naming the executable. When no dependency
  survives, no link-dependency declaration for the target is a line of the block.
\<close>

theorem test_target_rendering:
  assumes "rule_type t = ''cc_test''"
  shows "generate_target t =
      [''# Test: '' @ name t, ''add_executable('' @ name t] @
      map (\<lambda>src. ''    '' @ src) (srcs t) @
      ['')''] @
      (if convert_deps_to_cmake (deps t) = [] then []
       else [''target_link_libraries('' @ name t] @
            map (\<lambda>dep. ''    '' @ dep) (convert_deps_to_cmake (deps t)) @ ['')'']) @
      [''add_test(NAME '' @ name t @ '' COMMAND '' @ name t @ '')'']
    \<and> (convert_deps_to_cmake (deps t) = [] \<longrightarrow>
         ''target_link_libraries('' @ name t \<notin> set (generate_target t))
    \<and> (t \<in> set ts \<longrightarrow> (\<exists>pre post. cmake_lines g ts = pre @ generate_target t @ [''''] @ post))"
  using test_target_eq [OF assms] test_target_no_link [OF assms] target_block_in_output [of t ts g]
  by blast

theorem test_target_rendering_witness:
  "generate_target \<lparr>rule_type = ''cc_test'', name = ''my_lib_test'', hdrs = [],
        srcs = [''my_lib_test.cc''], deps = ['':my_lib'', ''@com_google_googletest//:gtest_main''],
        visibility = [], data = []\<rparr> =
     [''# Test: my_lib_test'',
      ''add_executable(my_lib_test'',
      ''    my_lib_test.cc'',
      '')'',
      ''target_link_libraries(my_lib_test'',
      ''    my_lib'',
      ''    GTest::gtest_main'',
      '')'',
      ''add_test(NAME my_lib_test COMMAND my_lib_test)'']
   \<and> ''target_link_libraries(smoke'' \<notin> set (generate_target
        \<lparr>rule_type = ''cc_test'', name = ''smoke'', hdrs = [], srcs = [''smoke.cc''], deps = [],
         visibility = [], data = []\<rparr>)
   \<and> (\<exists>pre post. cmake_lines (CMakeGenerator_init ''p'')
          [\<lparr>rule_type = ''cc_test'', name = ''smoke'', hdrs = [], srcs = [''smoke.cc''], deps = [],
            visibility = [], data = []\<rparr>] =
        pre @ generate_target \<lparr>rule_type = ''cc_test'', name = ''smoke'', hdrs = [],
            srcs = [''smoke.cc''], deps = [], visibility = [], data = []\<rparr> @ [''''] @ post)"
proof -
  let ?a = "\<lparr>rule_type = ''cc_test'', name = ''my_lib_test'', hdrs = [],
        srcs = [''my_lib_test.cc''], deps = ['':my_lib'', ''@com_google_googletest//:gtest_main''],
        visibility = [], data = []\<rparr>"
  let ?b = "\<lparr>rule_type = ''cc_test'', name = ''smoke'', hdrs = [], srcs = [''smoke.cc''],
        deps = [], visibility = [], data = []\<rparr>"
  have ra: "rule_type ?a = ''cc_test''" and rb: "rule_type ?b = ''cc_test''"
    by simp_all
  have nb: "convert_deps_to_cmake (deps ?b) = []" and mem: "?b \<in> set [?b]"
    by simp_all
  have a: "generate_target ?a =
     [''# Test: my_lib_test'',
      ''add_executable(my_lib_test'',
      ''    my_lib_test.cc'',
      '')'',
      ''target_link_libraries(my_lib_test'',
      ''    my_lib'',
      ''    GTest::gtest_main'',
      '')'',
      ''add_test(NAME my_lib_test COMMAND my_lib_test)'']"
    using test_target_rendering [OF ra, of "[]" "CMakeGenerator_init ''p''"]
    by (simp add: convert_deps_to_cmake_def convert_dep_def startswith_def)
  have b: "''target_link_libraries(smoke'' \<notin> set (generate_target ?b)"
    using test_target_rendering [OF rb, of "[?b]" "CMakeGenerator_init ''p''"] nb by simp
  have c: "\<exists>pre post. cmake_lines (CMakeGenerator_init ''p'') [?b] =
        pre @ generate_target ?b @ [''''] @ post"
    using test_target_rendering [OF rb, of "[?b]" "CMakeGenerator_init ''p''"] mem by blast
  show ?thesis
    by (intro conjI) (rule a, rule b, rule c)
qed

text \<open>
  Claim C5 as stated fails: a test target whose only dependency is an external reference
  that resolution drops has a non-empty dependency sequence and no link-dependency
  declaration.
\<close>

theorem test_link_declaration_counterexample:
  "deps \<lparr>rule_type = ''cc_test'', name = ''fs_test'', hdrs = [], srcs = [''fs_test.cc''],
         deps = [''@boost//:filesystem''], visibility = [], data = []\<rparr> \<noteq> []
   \<and> generate_target \<lparr>rule_type = ''cc_test'', name = ''fs_test'', hdrs = [],
         srcs = [''fs_test.cc''], deps = [''@boost//:filesystem''], visibility = [], data = []\<rparr> =
     [''# Test: fs_test'',
      ''add_executable(fs_test'',
      ''    fs_test.cc'',
      '')'',
      ''add_test(NAME fs_test COMMAND fs_test)'']"
  by (simp add: generate_target_def generate_test_target_def convert_deps_to_cmake_def
      convert_dep_def startswith_def Let_def)

section \<open>The install section\<close>


lemma no_colon_append: "CHR '':'' \<notin> set s \<Longrightarrow> s \<noteq> a @ CHR '':'' # b"
  by auto

lemma install_marker_absent_target: "''# Install rules'' \<notin> set (generate_target t)"
proof -
  consider (lib) "rule_type t = ''cc_library''" | (tst) "rule_type t = ''cc_test''"
    | (bin) "rule_type t = ''cc_binary''"
    | (other) "rule_type t \<noteq> ''cc_library''" "rule_type t \<noteq> ''cc_test''"
        "rule_type t \<noteq> ''cc_binary''"
    by blast
  then show ?thesis
  proof cases
    case lib
    then show ?thesis
      by (auto simp: generate_target_def generate_library_target_def Let_def)
  next
    case tst
    then show ?thesis
      by (auto simp: generate_target_def generate_test_target_def Let_def)
  next
    case bin
    then show ?thesis
      by (auto simp: generate_target_def generate_binary_target_def Let_def)
  next
    case other
    have "''Install rules'' \<noteq> rule_type t @ CHR '':'' # ('' '' @ name t)"
      by (rule no_colon_append) simp
    with other show ?thesis
      by (simp add: generate_target_def)
  qed
qed

lemma install_lines_absent_target:
  "''install(FILES'' \<notin> set (generate_target t)" "''install(TARGETS'' \<notin> set (generate_target t)"
  using target_line_head [of "''install(FILES''" t] target_line_head [of "''install(TARGETS''" t]
  by auto

lemma install_lines_absent_header:
  "''# Install rules'' \<notin> set (generate_header g)"
  "''install(FILES'' \<notin> set (generate_header g)" "''install(TARGETS'' \<notin> set (generate_header g)"
  by (simp_all add: generate_header_def)

lemma install_lines_absent_fetch:
  "''# Install rules'' \<notin> set (generate_find_package_section e)"
  "''install(FILES'' \<notin> set (generate_find_package_section e)"
  "''install(TARGETS'' \<notin> set (generate_find_package_section e)"
  by (simp_all add: generate_find_package_section_def Let_def)

lemma cmake_lines_body:
  "\<exists>body. cmake_lines g ts =
       body @ (if library_targets_of ts = [] then []
               else generate_install_rules (library_targets_of ts))
     \<and> ''# Install rules'' \<notin> set body \<and> ''install(FILES'' \<notin> set body
     \<and> ''install(TARGETS'' \<notin> set body"
proof -
  let ?body = "generate_header g @ [''''] @
     (if find_external_deps ts \<noteq> {}
      then generate_find_package_section (find_external_deps ts) @ [''''] else []) @
     concat (map (\<lambda>t. generate_target t @ ['''']) ts)"
  have e: "cmake_lines g ts =
       ?body @ (if library_targets_of ts = [] then []
               else generate_install_rules (library_targets_of ts))"
    by (simp add: cmake_lines_eq)
  have "''# Install rules'' \<notin> set ?body \<and> ''install(FILES'' \<notin> set ?body
     \<and> ''install(TARGETS'' \<notin> set ?body"
    by (simp add: install_lines_absent_header install_lines_absent_fetch
        install_lines_absent_target install_marker_absent_target)
  with e show ?thesis by blast
qed

lemma count_install_files:
  "length (filter (\<lambda>l. l = ''install(FILES'')
      (concat (map (\<lambda>t. if hdrs t \<noteq> [] then
                        [''install(FILES''] @ map (\<lambda>hdr. ''    '' @ hdr) (hdrs t) @
                        [''    DESTINATION include)'']
                      else []) libs))) =
   length (filter (\<lambda>t. hdrs t \<noteq> []) libs)"
proof (induction libs)
  case Nil
  show ?case by simp
next
  case (Cons t libs)
  have "filter (\<lambda>l. l = ''install(FILES'') (map (\<lambda>hdr. ''    '' @ hdr) (hdrs t)) = []"
    by (auto simp: filter_empty_conv)
  with Cons show ?case by simp
qed

lemma count_install_files_rules:
  "length (filter (\<lambda>l. l = ''install(FILES'') (generate_install_rules libs)) =
   length (filter (\<lambda>t. hdrs t \<noteq> []) libs)"
proof -
  have "filter (\<lambda>l. l = ''install(FILES'') (map (\<lambda>t. ''    '' @ name t) libs) = []"
    by (auto simp: filter_empty_conv)
  then show ?thesis
    unfolding generate_install_rules_eq
    by (simp add: count_install_files del: append.simps)
qed

lemma count_install_targets_rules:
  "length (filter (\<lambda>l. l = ''install(TARGETS'') (generate_install_rules libs)) =
   (if libs = [] then 0 else 1)"
proof -
  have a: "filter (\<lambda>l. l = ''install(TARGETS'') (map (\<lambda>t. ''    '' @ name t) libs) = []"
    by (auto simp: filter_empty_conv)
  have b: "filter (\<lambda>l. l = ''install(TARGETS'')
      (concat (map (\<lambda>t. if hdrs t \<noteq> [] then
                        [''install(FILES''] @ map (\<lambda>hdr. ''    '' @ hdr) (hdrs t) @
                        [''    DESTINATION include)'']
                      else []) libs)) = []"
    by (auto simp: filter_empty_conv)
  show ?thesis
    unfolding generate_install_rules_eq using a b
    by (simp del: append.simps)
qed

lemma library_targets_of_drop:
  "rule_type t \<noteq> ''cc_library'' \<Longrightarrow>
   library_targets_of (xs @ [t] @ ys) = library_targets_of (xs @ ys)"
  by (simp add: library_targets_of_def)

lemma library_targets_of_set:
  "set (library_targets_of ts) = {t \<in> set ts. rule_type t = ''cc_library''}"
  by (auto simp: library_targets_of_def)


lemma concat_map_if_filter:
  "concat (map (\<lambda>t. if P t then f t else []) xs) = concat (map f (filter P xs))"
  by (induction xs) auto

lemma install_marker_iff:
  "''# Install rules'' \<in> set (cmake_lines g ts) \<longleftrightarrow> (\<exists>t\<in>set ts. rule_type t = ''cc_library'')"
proof -
  obtain body where b: "cmake_lines g ts =
       body @ (if library_targets_of ts = [] then []
               else generate_install_rules (library_targets_of ts))"
    and n: "''# Install rules'' \<notin> set body"
    using cmake_lines_body [of g ts] by blast
  have m: "''# Install rules'' \<in> set (generate_install_rules libs)" for libs
    by (simp add: generate_install_rules_eq)
  have "library_targets_of ts \<noteq> [] \<longleftrightarrow> (\<exists>t\<in>set ts. rule_type t = ''cc_library'')"
    by (auto simp: library_targets_of_def filter_empty_conv)
  then show ?thesis
    using b n m by auto
qed

lemma filter_library_hdrs:
  "filter (\<lambda>t. hdrs t \<noteq> []) (library_targets_of ts) =
   filter (\<lambda>t. rule_type t = ''cc_library'' \<and> hdrs t \<noteq> []) ts"
  by (induction ts) (auto simp: library_targets_of_def)

text \<open>
  Claim C8. The install section starts at the line \<^verbatim>\<open># Install rules\<close>, which the script
  holds if and only if some target is a \<^verbatim>\<open>cc_library\<close>; nothing before the section is an
  install line. The section is: one \<^verbatim>\<open>install(FILES ... DESTINATION include)\<close> block per
  library target with headers (so the number of such blocks is the number of those
  targets), then one \<^verbatim>\<open>install(TARGETS\<close> declaration listing the name of every library
  target. It is computed from the library targets alone: a target of another kind changes
  nothing in it.
\<close>

theorem install_section:
  "(''# Install rules'' \<in> set (cmake_lines g ts) \<longleftrightarrow> (\<exists>t\<in>set ts. rule_type t = ''cc_library''))
   \<and> (\<exists>body. cmake_lines g ts =
         body @ (if library_targets_of ts = [] then []
                 else generate_install_rules (library_targets_of ts))
       \<and> ''# Install rules'' \<notin> set body \<and> ''install(FILES'' \<notin> set body
       \<and> ''install(TARGETS'' \<notin> set body)
   \<and> generate_install_rules (library_targets_of ts) =
       [''# Install rules''] @
       concat (map (\<lambda>t. [''install(FILES''] @ map (\<lambda>hdr. ''    '' @ hdr) (hdrs t) @
                         [''    DESTINATION include)''])
               (filter (\<lambda>t. rule_type t = ''cc_library'' \<and> hdrs t \<noteq> []) ts)) @
       (if library_targets_of ts = [] then []
        else [''install(TARGETS''] @ map (\<lambda>t. ''    '' @ name t) (library_targets_of ts) @
             [''    EXPORT ${PROJECT_NAME}Targets'',
              ''    LIBRARY DESTINATION lib'',
              ''    ARCHIVE DESTINATION lib'',
              ''    RUNTIME DESTINATION bin'',
              ''    INCLUDES DESTINATION include)''])
   \<and> length (filter (\<lambda>l. l = ''install(FILES'') (generate_install_rules (library_targets_of ts))) =
       length (filter (\<lambda>t. rule_type t = ''cc_library'' \<and> hdrs t \<noteq> []) ts)
   \<and> length (filter (\<lambda>l. l = ''install(TARGETS'') (generate_install_rules (library_targets_of ts))) =
       (if library_targets_of ts = [] then 0 else 1)
   \<and> set (library_targets_of ts) = {t \<in> set ts. rule_type t = ''cc_library''}
   \<and> (rule_type t \<noteq> ''cc_library'' \<longrightarrow>
        library_targets_of (xs @ [t] @ ys) = library_targets_of (xs @ ys))"
proof (intro conjI)
  show "''# Install rules'' \<in> set (cmake_lines g ts) \<longleftrightarrow> (\<exists>t\<in>set ts. rule_type t = ''cc_library'')"
    by (rule install_marker_iff)
  show "\<exists>body. cmake_lines g ts =
         body @ (if library_targets_of ts = [] then []
                 else generate_install_rules (library_targets_of ts))
       \<and> ''# Install rules'' \<notin> set body \<and> ''install(FILES'' \<notin> set body
       \<and> ''install(TARGETS'' \<notin> set body"
    by (rule cmake_lines_body)
  show "generate_install_rules (library_targets_of ts) =
       [''# Install rules''] @
       concat (map (\<lambda>t. [''install(FILES''] @ map (\<lambda>hdr. ''    '' @ hdr) (hdrs t) @
                         [''    DESTINATION include)''])
               (filter (\<lambda>t. rule_type t = ''cc_library'' \<and> hdrs t \<noteq> []) ts)) @
       (if library_targets_of ts = [] then []
        else [''install(TARGETS''] @ map (\<lambda>t. ''    '' @ name t) (library_targets_of ts) @
             [''    EXPORT ${PROJECT_NAME}Targets'',
              ''    LIBRARY DESTINATION lib'',
              ''    ARCHIVE DESTINATION lib'',
              ''    RUNTIME DESTINATION bin'',
              ''    INCLUDES DESTINATION include)''])"
    unfolding generate_install_rules_eq concat_map_if_filter filter_library_hdrs ..
  show "length (filter (\<lambda>l. l = ''install(FILES'') (generate_install_rules (library_targets_of ts))) =
       length (filter (\<lambda>t. rule_type t = ''cc_library'' \<and> hdrs t \<noteq> []) ts)"
    by (simp only: count_install_files_rules filter_library_hdrs)
  show "length (filter (\<lambda>l. l = ''install(TARGETS'') (generate_install_rules (library_targets_of ts))) =
       (if library_targets_of ts = [] then 0 else 1)"
    by (rule count_install_targets_rules)
  show "set (library_targets_of ts) = {t \<in> set ts. rule_type t = ''cc_library''}"
    by (rule library_targets_of_set)
  show "rule_type t \<noteq> ''cc_library'' \<longrightarrow>
        library_targets_of (xs @ [t] @ ys) = library_targets_of (xs @ ys)"
    using library_targets_of_drop by blast
qed

theorem install_section_witness:
  "''# Install rules'' \<in> set (cmake_lines (CMakeGenerator_init ''p'')
      [\<lparr>rule_type = ''cc_library'', name = ''base_lib'', hdrs = [''base.h''], srcs = [''base.cc''],
        deps = [], visibility = [], data = []\<rparr>,
       \<lparr>rule_type = ''cc_test'', name = ''base_test'', hdrs = [''fixture.h''], srcs = [''base_test.cc''],
        deps = ['':base_lib''], visibility = [], data = []\<rparr>])
   \<and> generate_install_rules (library_targets_of
      [\<lparr>rule_type = ''cc_library'', name = ''base_lib'', hdrs = [''base.h''], srcs = [''base.cc''],
        deps = [], visibility = [], data = []\<rparr>,
       \<lparr>rule_type = ''cc_test'', name = ''base_test'', hdrs = [''fixture.h''], srcs = [''base_test.cc''],
        deps = ['':base_lib''], visibility = [], data = []\<rparr>]) =
     [''# Install rules'',
      ''install(FILES'',
      ''    base.h'',
      ''    DESTINATION include)'',
      ''install(TARGETS'',
      ''    base_lib'',
      ''    EXPORT ${PROJECT_NAME}Targets'',
      ''    LIBRARY DESTINATION lib'',
      ''    ARCHIVE DESTINATION lib'',
      ''    RUNTIME DESTINATION bin'',
      ''    INCLUDES DESTINATION include)'']
   \<and> library_targets_of
      ([\<lparr>rule_type = ''cc_library'', name = ''base_lib'', hdrs = [''base.h''], srcs = [''base.cc''],
         deps = [], visibility = [], data = []\<rparr>] @
       [\<lparr>rule_type = ''cc_test'', name = ''base_test'', hdrs = [''fixture.h''], srcs = [''base_test.cc''],
         deps = ['':base_lib''], visibility = [], data = []\<rparr>] @ []) =
     library_targets_of
      ([\<lparr>rule_type = ''cc_library'', name = ''base_lib'', hdrs = [''base.h''], srcs = [''base.cc''],
         deps = [], visibility = [], data = []\<rparr>] @ [])"
proof -
  let ?l = "\<lparr>rule_type = ''cc_library'', name = ''base_lib'', hdrs = [''base.h''],
        srcs = [''base.cc''], deps = [], visibility = [], data = []\<rparr>"
  let ?t = "\<lparr>rule_type = ''cc_test'', name = ''base_test'', hdrs = [''fixture.h''],
        srcs = [''base_test.cc''], deps = ['':base_lib''], visibility = [], data = []\<rparr>"
  note w = install_section [of "CMakeGenerator_init ''p''" "[?l, ?t]" ?t "[?l]" "[]"]
  have ex: "\<exists>t\<in>set [?l, ?t]. rule_type t = ''cc_library''" by simp
  have nl: "rule_type ?t \<noteq> ''cc_library''" by simp
  have a: "''# Install rules'' \<in> set (cmake_lines (CMakeGenerator_init ''p'') [?l, ?t])"
    using w ex by blast
  have b: "generate_install_rules (library_targets_of [?l, ?t]) =
     [''# Install rules'',
      ''install(FILES'',
      ''    base.h'',
      ''    DESTINATION include)'',
      ''install(TARGETS'',
      ''    base_lib'',
      ''    EXPORT ${PROJECT_NAME}Targets'',
      ''    LIBRARY DESTINATION lib'',
      ''    ARCHIVE DESTINATION lib'',
      ''    RUNTIME DESTINATION bin'',
      ''    INCLUDES DESTINATION include)'']"
    using w by (simp add: library_targets_of_def)
  have c: "library_targets_of ([?l] @ [?t] @ []) = library_targets_of ([?l] @ [])"
    using w nl by blast
  show ?thesis
    by (intro conjI) (rule a, rule b, rule c)
qed

section \<open>The effect of generation\<close>





section \<open>Parsing\<close>


lemma add_attribute_Nil [simp]: "add_attribute t a [] = t"
  by (simp add: add_attribute_def)

lemma populate_step_eq:
  "populate_step kwargs t a = add_attribute t a (spec_attr_values kwargs a)"
  by (simp add: populate_step_def spec_attr_values_def split: option.splits pyval.splits)

lemma populate_target_init:
  "populate_target (BazelTarget_init rt n) kwargs =
     \<lparr>rule_type = rt, name = n,
      hdrs = spec_attr_values kwargs ''hdrs'',
      srcs = spec_attr_values kwargs ''srcs'',
      deps = spec_attr_values kwargs ''deps'',
      visibility = spec_attr_values kwargs ''visibility'',
      data = spec_attr_values kwargs ''data''\<rparr>"
  by (simp add: populate_target_def populate_step_eq add_attribute_def BazelTarget_init_def)

lemma record_target_eq:
  "record_target rt self kwargs = self\<lparr>targets := targets self @ [spec_target rt kwargs]\<rparr>"
  by (simp add: record_target_def Let_def populate_target_init spec_target_def kwargs_get_name_def)

lemma exec_globals_simps:
  "exec_globals ''load'' = Some Load"
  "exec_globals ''cc_library'' = Some Cc_library"
  "exec_globals ''cc_test'' = Some Cc_test"
  "exec_globals ''cc_binary'' = Some Cc_binary"
  by (simp_all add: exec_globals_def)


lemma exec_stmt_runs:
  assumes "spec_runs s"
  shows "exec_stmt self s = (Inr (), self\<lparr>targets := targets self @ spec_targets_of s\<rparr>)"
proof (cases s)
  case (Call f args kwargs)
  with assms consider "f = ''load''" | "f = ''cc_library''" "args = []"
    | "f = ''cc_test''" "args = []" | "f = ''cc_binary''" "args = []"
    by (auto simp: spec_runs_def known_rule_def)
  then show ?thesis
  proof cases
    case 1
    with Call show ?thesis
      by (simp add: exec_globals_simps spec_targets_of_def known_rule_def)
  next
    case 2
    with Call show ?thesis
      by (simp add: exec_globals_simps spec_targets_of_def known_rule_def call_recorder_def
          cc_library_def record_target_eq)
  next
    case 3
    with Call show ?thesis
      by (simp add: exec_globals_simps spec_targets_of_def known_rule_def call_recorder_def
          cc_test_def record_target_eq)
  next
    case 4
    with Call show ?thesis
      by (simp add: exec_globals_simps spec_targets_of_def known_rule_def call_recorder_def
          cc_binary_def record_target_eq)
  qed
qed


lemma exec_module_runs:
  assumes "\<forall>s\<in>set content. spec_runs s"
  shows "exec_module self content =
     (Inr (), self\<lparr>targets := targets self @ concat (map spec_targets_of content)\<rparr>)"
  using assms
proof (induction content arbitrary: self)
  case Nil
  show ?case by simp
next
  case (Cons s content)
  then show ?case by (simp add: exec_stmt_runs)
qed







text \<open>
  Claim C2 as stated fails: an invocation of a rule outside the vocabulary is not ignored.
  The descriptor \<^verbatim>\<open>filegroup(name = "docs")\<close> is syntactically valid, and parsing it raises
  \<^verbatim>\<open>NameError\<close>, since \<^verbatim>\<open>exec_globals\<close> binds only \<^verbatim>\<open>load\<close> and the three rules.
\<close>

theorem parse_unknown_rule_counterexample:
  "parse_file [''BUILD.bazel'' \<mapsto> Module [Call ''filegroup'' [] [(''name'', Str ''docs'')]]]
     BazelParser_init ''BUILD.bazel'' =
   (Inl (NameError ''filegroup''), BazelParser_init)"
  by (simp add: parse_file_def exec_globals_def)

text \<open>
  Claim C2, as amended. For a syntactically valid descriptor whose statements are
  \<^verbatim>\<open>load\<close> statements and keyword-argument invocations of the three known rules, parsing
  succeeds: the \<^verbatim>\<open>load\<close> statements are ignored without error and contribute no target,
  and every rule invocation is captured fully, in order, after the targets the instance
  already held.
\<close>

theorem parse_within_vocabulary:
  assumes "descriptors filepath = Some (Module content)"
    and "\<forall>s\<in>set content. spec_runs s"
  shows "parse_file descriptors self filepath =
     (Inr (targets self @ concat (map spec_targets_of content)),
      self\<lparr>targets := targets self @ concat (map spec_targets_of content)\<rparr>)"
  using assms(1) by (simp add: parse_file_def exec_module_runs [OF assms(2)])

theorem parse_within_vocabulary_witness:
  "parse_file
     [''BUILD.bazel'' \<mapsto> Module
        [Call ''load'' [Str ''@rules_cc//cc:cc_library.bzl'', Str ''cc_library''] [],
         Call ''cc_library'' []
           [(''name'', Str ''my_lib''), (''hdrs'', StrList [''my_lib.h'']),
            (''srcs'', StrList [''my_lib.cc'']), (''visibility'', StrList [''//visibility:public''])],
         Call ''cc_test'' []
           [(''name'', Str ''my_lib_test''), (''srcs'', Str ''my_lib_test.cc''),
            (''deps'', StrList ['':my_lib'', ''@com_google_googletest//:gtest_main'']),
            (''size'', Str ''small'')]]]
     BazelParser_init ''BUILD.bazel'' =
   (Inr [\<lparr>rule_type = ''cc_library'', name = Str ''my_lib'', hdrs = [''my_lib.h''],
          srcs = [''my_lib.cc''], deps = [], visibility = [''//visibility:public''], data = []\<rparr>,
         \<lparr>rule_type = ''cc_test'', name = Str ''my_lib_test'', hdrs = [],
          srcs = [''my_lib_test.cc''],
          deps = ['':my_lib'', ''@com_google_googletest//:gtest_main''],
          visibility = [], data = []\<rparr>],
    \<lparr>targets =
       [\<lparr>rule_type = ''cc_library'', name = Str ''my_lib'', hdrs = [''my_lib.h''],
          srcs = [''my_lib.cc''], deps = [], visibility = [''//visibility:public''], data = []\<rparr>,
         \<lparr>rule_type = ''cc_test'', name = Str ''my_lib_test'', hdrs = [],
          srcs = [''my_lib_test.cc''],
          deps = ['':my_lib'', ''@com_google_googletest//:gtest_main''],
          visibility = [], data = []\<rparr>]\<rparr>)"
  using parse_within_vocabulary [where self = BazelParser_init and filepath = "''BUILD.bazel''"
      and descriptors = "[''BUILD.bazel'' \<mapsto> Module
        [Call ''load'' [Str ''@rules_cc//cc:cc_library.bzl'', Str ''cc_library''] [],
         Call ''cc_library'' []
           [(''name'', Str ''my_lib''), (''hdrs'', StrList [''my_lib.h'']),
            (''srcs'', StrList [''my_lib.cc'']), (''visibility'', StrList [''//visibility:public''])],
         Call ''cc_test'' []
           [(''name'', Str ''my_lib_test''), (''srcs'', Str ''my_lib_test.cc''),
            (''deps'', StrList ['':my_lib'', ''@com_google_googletest//:gtest_main'']),
            (''size'', Str ''small'')]]]"]
  by (simp add: spec_runs_def known_rule_def spec_targets_of_def spec_target_def
      spec_attr_values_def BazelParser_init_def)









end
